theory Spec2Isabelle
  imports Main "HOL-Library.Word"
begin

section \<open>JavaScript values used by the request-authentication module\<close>

text \<open>
  The module \<^verbatim>\<open>orderly-auth.js\<close> works on strings, on numbers (the millisecond
  timestamp), on byte arrays (\<^verbatim>\<open>Uint8Array\<close>) and on a request body that is a string,
  an object or absent.

  Strings are modelled as \<^typ>\<open>string\<close>; the model is exact for ASCII text (HTTP methods,
  paths, header values, JSON of ASCII data), where a UTF-16 code unit, a code point and
  a UTF-8 byte coincide. Numbers are modelled as \<^typ>\<open>int\<close>: the integer-valued numbers
  of magnitude below \<open>10^21\<close>, which JavaScript renders in plain decimal; every value of
  \<^verbatim>\<open>Date.now()\<close> is one of them.
\<close>

type_synonym byte = "8 word"

datatype jsval =
    JUndefined
  | JNull
  | JBool bool
  | JNum int
  | JStr string
  | JArr "jsval list"
  | JObj "(string \<times> jsval) list"

text \<open>
  An object is the list of its own enumerable properties in enumeration order (the order
  in which \<^verbatim>\<open>JSON.stringify\<close> visits them).
\<close>

subsection \<open>Number to string\<close>

definition digit_char :: "nat \<Rightarrow> char" where
  "digit_char d = char_of (48 + d)"

fun nat_toString :: "nat \<Rightarrow> string" where
  "nat_toString n =
     (if n < 10 then [digit_char n] else nat_toString (n div 10) @ [digit_char (n mod 10)])"

declare nat_toString.simps [simp del]

text \<open>\<^verbatim>\<open>String(n)\<close> and \<^verbatim>\<open>`${n}`\<close> of a number: the decimal rendering.\<close>

definition Number_toString :: "int \<Rightarrow> string" where
  "Number_toString i =
     (if i < 0 then CHR ''-'' # nat_toString (nat (- i)) else nat_toString (nat i))"

subsection \<open>\<^verbatim>\<open>String.prototype.toUpperCase\<close>\<close>

definition toUpperCase_char :: "char \<Rightarrow> char" where
  "toUpperCase_char c =
     (let n = (of_char c :: nat) in if 97 \<le> n \<and> n \<le> 122 then char_of (n - 32) else c)"

definition toUpperCase :: "string \<Rightarrow> string" where
  "toUpperCase s = map toUpperCase_char s"

subsection \<open>Truthiness and \<^verbatim>\<open>JSON.stringify\<close>\<close>

fun ToBoolean :: "jsval \<Rightarrow> bool" where
  "ToBoolean JUndefined = False"
| "ToBoolean JNull = False"
| "ToBoolean (JBool b) = b"
| "ToBoolean (JNum n) = (n \<noteq> 0)"
| "ToBoolean (JStr s) = (s \<noteq> [])"
| "ToBoolean (JArr xs) = True"
| "ToBoolean (JObj kvs) = True"

definition hex_digit :: "nat \<Rightarrow> char" where
  "hex_digit d = (if d < 10 then char_of (48 + d) else char_of (87 + d))"

text \<open>The escape of one character inside a JSON string literal.\<close>

definition QuoteJSON_char :: "char \<Rightarrow> string" where
  "QuoteJSON_char c =
     (let n = (of_char c :: nat) in
      if n = 8 then [CHR 0x5C, CHR ''b'']
      else if n = 9 then [CHR 0x5C, CHR ''t'']
      else if n = 10 then [CHR 0x5C, CHR ''n'']
      else if n = 12 then [CHR 0x5C, CHR ''f'']
      else if n = 13 then [CHR 0x5C, CHR ''r'']
      else if n = 34 then [CHR 0x5C, CHR 0x22]
      else if n = 92 then [CHR 0x5C, CHR 0x5C]
      else if n < 32 then [CHR 0x5C, CHR ''u'', CHR ''0'', CHR ''0'', hex_digit (n div 16), hex_digit (n mod 16)]
      else [c])"

definition QuoteJSONString :: "string \<Rightarrow> string" where
  "QuoteJSONString s = [CHR 0x22] @ concat (map QuoteJSON_char s) @ [CHR 0x22]"

fun join_comma :: "string list \<Rightarrow> string" where
  "join_comma [] = []"
| "join_comma [s] = s"
| "join_comma (s # t # ss) = s @ '','' @ join_comma (t # ss)"

text \<open>
  \<^verbatim>\<open>JSON.stringify(value)\<close> with no replacer and no indentation. The result \<open>None\<close> is
  JavaScript's \<^verbatim>\<open>undefined\<close>. An \<^verbatim>\<open>undefined\<close> array element is written \<^verbatim>\<open>null\<close>, a
  property whose value is \<^verbatim>\<open>undefined\<close> is left out.
\<close>

fun JSON_stringify :: "jsval \<Rightarrow> string option"
  and stringify_elements :: "jsval list \<Rightarrow> string list"
  and stringify_members :: "(string \<times> jsval) list \<Rightarrow> string list"
where
  "JSON_stringify JUndefined = None"
| "JSON_stringify JNull = Some ''null''"
| "JSON_stringify (JBool b) = Some (if b then ''true'' else ''false'')"
| "JSON_stringify (JNum n) = Some (Number_toString n)"
| "JSON_stringify (JStr s) = Some (QuoteJSONString s)"
| "JSON_stringify (JArr xs) = Some (''['' @ join_comma (stringify_elements xs) @ '']'')"
| "JSON_stringify (JObj kvs) = Some (''{'' @ join_comma (stringify_members kvs) @ ''}'')"
| "stringify_elements [] = []"
| "stringify_elements (x # xs) =
     (case JSON_stringify x of None \<Rightarrow> ''null'' | Some s \<Rightarrow> s) # stringify_elements xs"
| "stringify_members [] = []"
| "stringify_members ((k, v) # kvs) =
     (case JSON_stringify v of
        None \<Rightarrow> stringify_members kvs
      | Some s \<Rightarrow> (QuoteJSONString k @ '':'' @ s) # stringify_members kvs)"

section \<open>The canonical message builder\<close>

text \<open>
  \<^verbatim>\<open>function normalizeRequestMessage(timestamp, method, path, body = "")\<close>. The body
  argument \<open>None\<close> is an omitted (or \<^verbatim>\<open>undefined\<close>) argument, for which the default
  parameter value \<^verbatim>\<open>""\<close> is taken.
\<close>

definition normalizeRequestMessage :: "int \<Rightarrow> string \<Rightarrow> string \<Rightarrow> string option \<Rightarrow> string" where
  "normalizeRequestMessage timestamp method path body =
     Number_toString timestamp @ method @ path @ (case body of None \<Rightarrow> [] | Some b \<Rightarrow> b)"

section \<open>Content type\<close>

definition getContentType :: "string \<Rightarrow> string" where
  "getContentType method =
     (let upperMethod = toUpperCase method in
      if upperMethod = ''GET'' \<or> upperMethod = ''DELETE''
      then ''application/x-www-form-urlencoded''
      else ''application/json'')"

section \<open>Bytes: \<^verbatim>\<open>TextEncoder\<close> and \<^verbatim>\<open>Buffer.toString("base64url")\<close>\<close>

text \<open>\<^verbatim>\<open>new TextEncoder().encode(message)\<close>: the UTF-8 bytes, one byte per ASCII character.\<close>

definition TextEncoder_encode :: "string \<Rightarrow> byte list" where
  "TextEncoder_encode s = map of_char s"

definition base64url_alphabet :: string where
  "base64url_alphabet = ''ABCDEFGHIJKLMNOPQRSTUVWXYZabcdefghijklmnopqrstuvwxyz0123456789-_''"

definition base64url_char :: "nat \<Rightarrow> char" where
  "base64url_char i = base64url_alphabet ! i"

text \<open>
  The 6-bit groups of a byte sequence: three bytes give four groups; a rest of one byte
  gives two groups and a rest of two bytes gives three, the last one filled with zero bits.
\<close>

fun sextets :: "byte list \<Rightarrow> nat list" where
  "sextets (a # b # c # rest) =
     [unat a div 4,
      (unat a mod 4) * 16 + unat b div 16,
      (unat b mod 16) * 4 + unat c div 64,
      unat c mod 64] @ sextets rest"
| "sextets [a, b] =
     [unat a div 4,
      (unat a mod 4) * 16 + unat b div 16,
      (unat b mod 16) * 4]"
| "sextets [a] =
     [unat a div 4,
      (unat a mod 4) * 16]"
| "sextets [] = []"

text \<open>\<^verbatim>\<open>Buffer.from(bytes).toString("base64url")\<close>: no padding character is appended.\<close>

definition base64url :: "byte list \<Rightarrow> string" where
  "base64url bytes = map base64url_char (sextets bytes)"

text \<open>
  The decoder is not part of the module (the receiving server decodes the header); it is
  the standard inverse, defined here to state the round trip.
\<close>

fun index_of :: "'a \<Rightarrow> 'a list \<Rightarrow> nat option" where
  "index_of x [] = None"
| "index_of x (y # ys) = (if x = y then Some 0 else map_option Suc (index_of x ys))"

definition base64url_value :: "char \<Rightarrow> nat option" where
  "base64url_value c = index_of c base64url_alphabet"

fun decode_sextets :: "nat list \<Rightarrow> byte list option" where
  "decode_sextets (s0 # s1 # s2 # s3 # rest) =
     map_option
       (append [of_nat (s0 * 4 + s1 div 16),
                of_nat ((s1 mod 16) * 16 + s2 div 4),
                of_nat ((s2 mod 4) * 64 + s3)])
       (decode_sextets rest)"
| "decode_sextets [s0, s1, s2] =
     Some [of_nat (s0 * 4 + s1 div 16), of_nat ((s1 mod 16) * 16 + s2 div 4)]"
| "decode_sextets [s0, s1] = Some [of_nat (s0 * 4 + s1 div 16)]"
| "decode_sextets [s0] = None"
| "decode_sextets [] = Some []"

definition base64url_decode :: "string \<Rightarrow> byte list option" where
  "base64url_decode s =
     (case those (map base64url_value s) of
        None \<Rightarrow> None
      | Some ss \<Rightarrow> decode_sextets ss)"

section \<open>Signing\<close>

text \<open>
  The ed25519 primitive \<^verbatim>\<open>sign(messageBytes, privateKey)\<close> is imported from the package
  \<^verbatim>\<open>@noble/ed25519\<close>; it is a parameter of the model. It returns the raw signature
  bytes (\<open>Inr\<close>) or throws (\<open>Inl\<close>, the rejected promise), for example on a private key
  of the wrong length.
\<close>

type_synonym 'e sign_primitive = "byte list \<Rightarrow> byte list \<Rightarrow> 'e + byte list"

definition createOrderlySignature :: "'e sign_primitive \<Rightarrow> string \<Rightarrow> byte list \<Rightarrow> 'e + string" where
  "createOrderlySignature sign message privateKey =
     (let messageBytes = TextEncoder_encode message in
      case sign messageBytes privateKey of
        Inl err \<Rightarrow> Inl err
      | Inr signature \<Rightarrow> Inr (base64url signature))"

section \<open>The authenticated request builder\<close>

record requestConfig =
  cfg_method :: string
  cfg_headers :: "(string \<times> string) list"
  cfg_body :: "string option"

text \<open>
  The local variable \<^verbatim>\<open>bodyString\<close>: the empty string for a falsy body, the body itself
  when it is a string, and \<^verbatim>\<open>JSON.stringify(body)\<close> otherwise.
\<close>

definition bodyString :: "jsval \<Rightarrow> string option" where
  "bodyString body =
     (if ToBoolean body
      then (case body of JStr s \<Rightarrow> Some s | _ \<Rightarrow> JSON_stringify body)
      else Some [])"

text \<open>The local variable \<^verbatim>\<open>normalizedMessage\<close>: the canonical message that is signed.\<close>

definition normalizedMessage :: "int \<Rightarrow> string \<Rightarrow> string \<Rightarrow> jsval \<Rightarrow> string" where
  "normalizedMessage timestamp method path body =
     normalizeRequestMessage timestamp (toUpperCase method) path (bodyString body)"

text \<open>
  \<^verbatim>\<open>createAuthenticatedRequest\<close>. The argument \<open>timestamp\<close> is the value that the single
  call of \<^verbatim>\<open>Date.now()\<close> returns. An absent \<open>cfg_body\<close> is \<open>None\<close>.
\<close>

definition createAuthenticatedRequest ::
  "'e sign_primitive \<Rightarrow> int \<Rightarrow> string \<Rightarrow> string \<Rightarrow> jsval \<Rightarrow> string \<Rightarrow> string \<Rightarrow> byte list
     \<Rightarrow> 'e + requestConfig" where
  "createAuthenticatedRequest sign timestamp method path body accountId orderlyKey orderlyPrivateKey =
     (case createOrderlySignature sign (normalizedMessage timestamp method path body) orderlyPrivateKey of
        Inl err \<Rightarrow> Inl err
      | Inr signature \<Rightarrow>
          (let headers =
                 [(''Content-Type'', getContentType method),
                  (''orderly-timestamp'', Number_toString timestamp),
                  (''orderly-account-id'', accountId),
                  (''orderly-key'', orderlyKey),
                  (''orderly-signature'', signature)];
               requestConfig =
                 \<lparr>cfg_method = toUpperCase method, cfg_headers = headers, cfg_body = None\<rparr>
           in Inr (if (bodyString body \<noteq> None \<and> bodyString body \<noteq> Some [])
                      \<and> (toUpperCase method = ''POST'' \<or> toUpperCase method = ''PUT'')
                   then requestConfig\<lparr>cfg_body := bodyString body\<rparr>
                   else requestConfig)))"

text \<open>The names of the headers other than the standard \<^verbatim>\<open>Content-Type\<close>.\<close>

definition custom_header_names :: "requestConfig \<Rightarrow> string list" where
  "custom_header_names cfg = removeAll ''Content-Type'' (map fst (cfg_headers cfg))"

subsection \<open>Verification\<close>




subsection \<open>A stand-in primitive for evaluating the module\<close>

text \<open>
  It has the interface of the ed25519 primitive: a key that is not 32 bytes long is
  rejected, and a signature is 64 bytes long. Its signature is the first 64 bytes of
  the key followed by the message and 64 zero bytes.
\<close>

definition zero_bytes :: "byte list" where
  "zero_bytes =
     [0, 0, 0, 0, 0, 0, 0, 0, 0, 0, 0, 0, 0, 0, 0, 0, 0, 0, 0, 0, 0, 0, 0, 0, 0, 0, 0, 0, 0, 0, 0, 0,
      0, 0, 0, 0, 0, 0, 0, 0, 0, 0, 0, 0, 0, 0, 0, 0, 0, 0, 0, 0, 0, 0, 0, 0, 0, 0, 0, 0, 0, 0, 0, 0]"

definition example_sign :: "string sign_primitive" where
  "example_sign messageBytes privateKey =
     (if length privateKey = 32
      then Inr (take 64 (privateKey @ messageBytes @ zero_bytes))
      else Inl ''private key of invalid length'')"

definition example_key :: "byte list" where
  "example_key =
     [7, 7, 7, 7, 7, 7, 7, 7, 7, 7, 7, 7, 7, 7, 7, 7, 7, 7, 7, 7, 7, 7, 7, 7, 7, 7, 7, 7, 7, 7, 7, 7]"

definition short_key :: "byte list" where
  "short_key = [1, 2, 3]"

text \<open>
  The signature of the stand-in primitive on the message
  \<^verbatim>\<open>1700000000123GET/v1/orders?symbol=X\<close> under \<open>example_key\<close>.
\<close>

definition example_signature :: "byte list" where
  "example_signature =
     [7, 7, 7, 7, 7, 7, 7, 7, 7, 7, 7, 7, 7, 7, 7, 7, 7, 7, 7, 7, 7, 7, 7, 7, 7, 7, 7, 7, 7, 7, 7, 7,
      49, 55, 48, 48, 48, 48, 48, 48, 48, 48, 49, 50, 51, 71, 69, 84, 47, 118, 49, 47, 111, 114, 100,
      101, 114, 115, 63, 115, 121, 109, 98, 111]"

definition example_signature_string :: string where
  "example_signature_string =
     ''BwcHBwcHBwcHBwcHBwcHBwcHBwcHBwcHBwcHBwcHBwcxNzAwMDAwMDAwMTIzR0VUL3YxL29yZGVycz9zeW1ibw''"

text \<open>
  The request configurations that the module returns in four calls at the timestamp
  \<open>1700000000123\<close>, with the account id \<^verbatim>\<open>acct1\<close>, the public key \<^verbatim>\<open>ed25519:PUB\<close>, the
  stand-in primitive and \<open>example_key\<close>: \<^verbatim>\<open>GET /v1/orders?symbol=X\<close> without a body,
  \<^verbatim>\<open>post /v1/order\<close> with the object \<^verbatim>\<open>{symbol: "X"}\<close>, \<^verbatim>\<open>GET /v1/orders\<close> with the same
  object, and \<^verbatim>\<open>delete /v1/order?order_id=1\<close> with the object \<^verbatim>\<open>{a: 1}\<close>.
\<close>

definition config_get :: requestConfig where
  "config_get =
     \<lparr>cfg_method = ''GET'',
      cfg_headers =
        [(''Content-Type'', ''application/x-www-form-urlencoded''),
         (''orderly-timestamp'', ''1700000000123''),
         (''orderly-account-id'', ''acct1''),
         (''orderly-key'', ''ed25519:PUB''),
         (''orderly-signature'', example_signature_string)],
      cfg_body = None\<rparr>"

definition symbol_json :: string where
  "symbol_json =
     ''{'' @ [CHR 0x22] @ ''symbol'' @ [CHR 0x22] @ '':'' @ [CHR 0x22] @ ''X'' @ [CHR 0x22] @ ''}''"

definition config_post :: requestConfig where
  "config_post =
     \<lparr>cfg_method = ''POST'',
      cfg_headers =
        [(''Content-Type'', ''application/json''),
         (''orderly-timestamp'', ''1700000000123''),
         (''orderly-account-id'', ''acct1''),
         (''orderly-key'', ''ed25519:PUB''),
         (''orderly-signature'',
          ''BwcHBwcHBwcHBwcHBwcHBwcHBwcHBwcHBwcHBwcHBwcxNzAwMDAwMDAwMTIzUE9TVC92MS9vcmRlcnsic3ltYg'')],
      cfg_body = Some symbol_json\<rparr>"

definition config_get_with_body :: requestConfig where
  "config_get_with_body =
     \<lparr>cfg_method = ''GET'',
      cfg_headers =
        [(''Content-Type'', ''application/x-www-form-urlencoded''),
         (''orderly-timestamp'', ''1700000000123''),
         (''orderly-account-id'', ''acct1''),
         (''orderly-key'', ''ed25519:PUB''),
         (''orderly-signature'',
          ''BwcHBwcHBwcHBwcHBwcHBwcHBwcHBwcHBwcHBwcHBwcxNzAwMDAwMDAwMTIzR0VUL3YxL29yZGVyc3sic3ltYg'')],
      cfg_body = None\<rparr>"

definition config_delete_with_body :: requestConfig where
  "config_delete_with_body =
     \<lparr>cfg_method = ''DELETE'',
      cfg_headers =
        [(''Content-Type'', ''application/x-www-form-urlencoded''),
         (''orderly-timestamp'', ''1700000000123''),
         (''orderly-account-id'', ''acct1''),
         (''orderly-key'', ''ed25519:PUB''),
         (''orderly-signature'',
          ''BwcHBwcHBwcHBwcHBwcHBwcHBwcHBwcHBwcHBwcHBwcxNzAwMDAwMDAwMTIzREVMRVRFL3YxL29yZGVyP29yZA'')],
      cfg_body = None\<rparr>"




section \<open>Properties of the encodings\<close>

lemma bodyString_Some: "\<exists>s. bodyString body = Some s"
  by (cases body) (auto simp: bodyString_def)

lemma index_of_nth: "distinct xs \<Longrightarrow> i < length xs \<Longrightarrow> index_of (xs ! i) xs = Some i"
proof (induction xs arbitrary: i)
  case Nil
  then show ?case by simp
next
  case (Cons y ys)
  show ?case
  proof (cases i)
    case 0
    then show ?thesis by simp
  next
    case (Suc j)
    with Cons.prems have "j < length ys" and "distinct ys" and "ys ! j \<noteq> y"
      by auto
    with Cons.IH [of j] Suc show ?thesis by simp
  qed
qed

lemma base64url_alphabet_distinct: "distinct base64url_alphabet"
  by (simp add: base64url_alphabet_def)

lemma base64url_alphabet_length: "length base64url_alphabet = 64"
  by (simp add: base64url_alphabet_def)

lemma base64url_value_char: "i < 64 \<Longrightarrow> base64url_value (base64url_char i) = Some i"
  by (simp add: base64url_value_def base64url_char_def index_of_nth
      base64url_alphabet_distinct base64url_alphabet_length)

lemma byte_bound: "unat (a :: byte) < 256"
  using unsigned_less [of a, where ?'a = nat] by simp

lemma sextets_bound: "s \<in> set (sextets bs) \<Longrightarrow> s < 64"
proof (induction bs arbitrary: s rule: sextets.induct)
  case (1 a b c rest)
  have "unat a < 256" "unat b < 256" "unat c < 256" by (rule byte_bound)+
  with 1 show ?case by auto
next
  case (2 a b)
  have "unat a < 256" "unat b < 256" by (rule byte_bound)+
  with 2 show ?case by auto
next
  case (3 a)
  have "unat a < 256" by (rule byte_bound)
  with 3 show ?case by auto
next
  case 4
  then show ?case by simp
qed

lemma sextet_split: "b < 16 \<Longrightarrow> (a * 16 + b) div 16 = (a::nat) \<and> (a * 16 + b) mod 16 = b"
  by simp

lemma pair_split: "b < 4 \<Longrightarrow> (a * 4 + b) div 4 = (a::nat) \<and> (a * 4 + b) mod 4 = b"
  by simp

lemma regroup_first:
  assumes "m < 256"
  shows "(n div 4) * 4 + ((n mod 4) * 16 + m div 16) div 16 = (n::nat)"
proof -
  from assms have "m div 16 < 16" by simp
  then have "((n mod 4) * 16 + m div 16) div 16 = n mod 4"
    by (simp add: sextet_split)
  then show ?thesis by simp
qed

lemma regroup_second:
  assumes "m < 256" and "c < 256"
  shows "(((n mod 4) * 16 + m div 16) mod 16) * 16 + ((m mod 16) * 4 + c div 64) div 4 = (m::nat)"
proof -
  from assms have "m div 16 < 16" and "c div 64 < 4" by simp_all
  then have "((n mod 4) * 16 + m div 16) mod 16 = m div 16"
    and "((m mod 16) * 4 + c div 64) div 4 = m mod 16"
    by (simp_all add: sextet_split pair_split)
  then show ?thesis by simp
qed

lemma regroup_third:
  assumes "c < 256"
  shows "(((m mod 16) * 4 + c div 64) mod 4) * 64 + c mod 64 = (c::nat)"
proof -
  from assms have "c div 64 < 4" by simp
  then have "((m mod 16) * 4 + c div 64) mod 4 = c div 64"
    by (simp add: pair_split)
  then show ?thesis by simp
qed

lemma regroup_second_tail:
  assumes "m < 256"
  shows "(((n mod 4) * 16 + m div 16) mod 16) * 16 + ((m mod 16) * 4) div 4 = (m::nat)"
  using regroup_second [of m 0 n] assms by simp

lemma regroup_first_tail: "(n div 4) * 4 + ((n mod 4) * 16) div 16 = (n::nat)"
  using regroup_first [of 0 n] by simp

lemma decode_sextets_sextets: "decode_sextets (sextets bs) = Some bs"
proof (induction bs rule: sextets.induct)
  case (1 a b c rest)
  have "unat a < 256" "unat b < 256" "unat c < 256" by (rule byte_bound)+
  with 1 show ?case
    by (simp add: regroup_first regroup_second regroup_third)
next
  case (2 a b)
  have "unat a < 256" "unat b < 256" by (rule byte_bound)+
  then show ?case
    by (simp add: regroup_first regroup_second_tail)
next
  case (3 a)
  show ?case by (simp add: regroup_first_tail)
next
  case 4
  show ?case by simp
qed

lemma those_map_Some:
  "(\<And>x. x \<in> set xs \<Longrightarrow> f (g x) = Some x) \<Longrightarrow> those (map f (map g xs)) = Some xs"
  by (induction xs) simp_all

lemma base64url_decode_base64url: "base64url_decode (base64url bytes) = Some bytes"
proof -
  have "those (map base64url_value (map base64url_char (sextets bytes))) = Some (sextets bytes)"
    by (rule those_map_Some) (simp add: base64url_value_char sextets_bound)
  then show ?thesis
    by (simp add: base64url_decode_def base64url_def decode_sextets_sextets)
qed

lemma base64url_no_padding: "CHR ''='' \<notin> set (base64url bytes)"
proof
  assume "CHR ''='' \<in> set (base64url bytes)"
  then obtain s where "s \<in> set (sextets bytes)" and eq: "base64url_char s = CHR ''=''"
    by (auto simp: base64url_def)
  then have "s < length base64url_alphabet"
    by (simp add: sextets_bound base64url_alphabet_length)
  then have "base64url_char s \<in> set base64url_alphabet"
    by (simp add: base64url_char_def)
  with eq show False
    by (simp add: base64url_alphabet_def)
qed

lemma length_sextets: "length (sextets bs) = (4 * length bs + 2) div 3"
  by (induction bs rule: sextets.induct) simp_all

lemma length_base64url: "length (base64url bytes) = (4 * length bytes + 2) div 3"
  by (simp add: base64url_def length_sextets)


section \<open>The rendering of numbers and the encoding of text are injective\<close>










section \<open>The module at concrete inputs\<close>

lemmas eval_defs =
  Number_toString_def nat_toString.simps digit_char_def char_of_def bit_Suc_0_iff
  toUpperCase_def toUpperCase_char_def

lemmas sign_eval_defs =
  createOrderlySignature_def example_sign_def example_key_def zero_bytes_def
  TextEncoder_encode_def base64url_def base64url_char_def base64url_alphabet_def

lemmas request_eval_defs =
  createAuthenticatedRequest_def normalizedMessage_def normalizeRequestMessage_def
  bodyString_def getContentType_def QuoteJSONString_def QuoteJSON_char_def

lemma call_get:
  "createAuthenticatedRequest example_sign 1700000000123 ''GET'' ''/v1/orders?symbol=X'' JNull
     ''acct1'' ''ed25519:PUB'' example_key = Inr config_get"
  by (simp add: request_eval_defs eval_defs sign_eval_defs config_get_def
      example_signature_string_def)

lemma call_post:
  "createAuthenticatedRequest example_sign 1700000000123 ''post'' ''/v1/order''
     (JObj [(''symbol'', JStr ''X'')]) ''acct1'' ''ed25519:PUB'' example_key = Inr config_post"
  by (simp add: request_eval_defs eval_defs sign_eval_defs config_post_def symbol_json_def)

lemma call_get_with_body:
  "createAuthenticatedRequest example_sign 1700000000123 ''GET'' ''/v1/orders''
     (JObj [(''symbol'', JStr ''X'')]) ''acct1'' ''ed25519:PUB'' example_key
   = Inr config_get_with_body"
  by (simp add: request_eval_defs eval_defs sign_eval_defs config_get_with_body_def)

lemma call_delete_with_body:
  "createAuthenticatedRequest example_sign 1700000000123 ''delete'' ''/v1/order?order_id=1''
     (JObj [(''a'', JNum 1)]) ''acct1'' ''ed25519:PUB'' example_key
   = Inr config_delete_with_body"
  by (simp add: request_eval_defs eval_defs sign_eval_defs config_delete_with_body_def)

lemma example_sign_get:
  "example_sign (TextEncoder_encode ''1700000000123GET/v1/orders?symbol=X'') example_key
   = Inr example_signature"
  by (simp add: example_sign_def example_key_def zero_bytes_def TextEncoder_encode_def
      example_signature_def)

lemma example_sign_short_key:
  "example_sign messageBytes short_key = Inl ''private key of invalid length''"
  by (simp add: example_sign_def short_key_def)




section \<open>The shape of a successful call\<close>

lemma createAuthenticatedRequest_Inr:
  assumes "createAuthenticatedRequest sign timestamp method path body accountId orderlyKey orderlyPrivateKey = Inr cfg"
  obtains signature s where
    "sign (TextEncoder_encode (normalizedMessage timestamp method path body)) orderlyPrivateKey = Inr signature"
    and "bodyString body = Some s"
    and "cfg = \<lparr>cfg_method = toUpperCase method,
               cfg_headers =
                 [(''Content-Type'', getContentType method),
                  (''orderly-timestamp'', Number_toString timestamp),
                  (''orderly-account-id'', accountId),
                  (''orderly-key'', orderlyKey),
                  (''orderly-signature'', base64url signature)],
               cfg_body =
                 (if s \<noteq> [] \<and> (toUpperCase method = ''POST'' \<or> toUpperCase method = ''PUT'')
                  then Some s else None)\<rparr>"
proof -
  obtain s where s: "bodyString body = Some s"
    using bodyString_Some by blast
  from assms obtain signature where
    sig: "sign (TextEncoder_encode (normalizedMessage timestamp method path body)) orderlyPrivateKey = Inr signature"
    by (auto simp: createAuthenticatedRequest_def createOrderlySignature_def split: sum.splits)
  with assms s have "cfg = \<lparr>cfg_method = toUpperCase method,
               cfg_headers =
                 [(''Content-Type'', getContentType method),
                  (''orderly-timestamp'', Number_toString timestamp),
                  (''orderly-account-id'', accountId),
                  (''orderly-key'', orderlyKey),
                  (''orderly-signature'', base64url signature)],
               cfg_body =
                 (if s \<noteq> [] \<and> (toUpperCase method = ''POST'' \<or> toUpperCase method = ''PUT'')
                  then Some s else None)\<rparr>"
    by (auto simp: createAuthenticatedRequest_def createOrderlySignature_def Let_def split: if_splits)
  with sig s show thesis by (rule that)
qed

lemma normalizedMessage_fields:
  "bodyString body = Some s \<Longrightarrow>
   normalizedMessage timestamp method path body =
     Number_toString timestamp @ toUpperCase method @ path @ s"
  by (simp add: normalizedMessage_def normalizeRequestMessage_def)

text \<open>Whenever a body is attached, it is the body field of the signed message.\<close>

lemma attached_body_is_signed:
  assumes "createAuthenticatedRequest sign timestamp method path body accountId orderlyKey orderlyPrivateKey = Inr cfg"
    and "cfg_body cfg = Some sent"
  shows "normalizedMessage timestamp method path body =
           Number_toString timestamp @ toUpperCase method @ path @ sent"
  using assms(1)
proof (rule createAuthenticatedRequest_Inr)
  fix signature s
  assume s: "bodyString body = Some s"
    and cfg: "cfg = \<lparr>cfg_method = toUpperCase method,
               cfg_headers =
                 [(''Content-Type'', getContentType method),
                  (''orderly-timestamp'', Number_toString timestamp),
                  (''orderly-account-id'', accountId),
                  (''orderly-key'', orderlyKey),
                  (''orderly-signature'', base64url signature)],
               cfg_body =
                 (if s \<noteq> [] \<and> (toUpperCase method = ''POST'' \<or> toUpperCase method = ''PUT'')
                  then Some s else None)\<rparr>"
  from cfg assms(2) have "sent = s" by (simp split: if_splits)
  with s show ?thesis by (simp add: normalizedMessage_fields)
qed

section \<open>The canonical message (C1)\<close>

text \<open>
  Claim C1 states that \<^verbatim>\<open>normalizeRequestMessage\<close> itself converts the method to upper
  case. It does not: called with the method \<^verbatim>\<open>get\<close> it returns a message that contains
  \<^verbatim>\<open>get\<close>, which is not the concatenation with the upper-cased method.
\<close>

theorem normalizeRequestMessage_lowercase_counterexample:
  "normalizeRequestMessage 1700000000123 ''get'' ''/v1/orders'' (Some []) = ''1700000000123get/v1/orders''
   \<and> normalizeRequestMessage 1700000000123 ''get'' ''/v1/orders'' (Some [])
        \<noteq> Number_toString 1700000000123 @ toUpperCase ''get'' @ ''/v1/orders'' @ []"
  by (simp add: normalizeRequestMessage_def eval_defs)

text \<open>
  Claim C1, amended: for every timestamp, method, path and body, \<^verbatim>\<open>normalizeRequestMessage\<close>
  returns exactly the decimal rendering of the timestamp, followed by the method as it
  was passed, followed by the path, followed by the body (the empty string when the body
  is omitted), with no separators. The conversion to upper case is done by the caller:
  the canonical message that \<^verbatim>\<open>createAuthenticatedRequest\<close> builds and signs contains the
  upper-cased method, between the timestamp and the path, followed by the body string.
\<close>

theorem normalizeRequestMessage_concatenation:
  "normalizeRequestMessage timestamp method path (Some body) =
     Number_toString timestamp @ method @ path @ body
   \<and> normalizeRequestMessage timestamp method path None = Number_toString timestamp @ method @ path
   \<and> (\<exists>s. bodyString b = Some s
          \<and> normalizedMessage timestamp method path b =
              Number_toString timestamp @ toUpperCase method @ path @ s)"
proof -
  obtain s where "bodyString b = Some s"
    using bodyString_Some by blast
  then show ?thesis
    by (simp add: normalizeRequestMessage_def normalizedMessage_def)
qed

section \<open>The signed body and the transmitted body (C2)\<close>

text \<open>
  Claim C2 states that the body field of the signed message is the transmitted body, and
  that it is empty for GET and DELETE. The call \<^verbatim>\<open>GET /v1/orders\<close> with the body object
  \<^verbatim>\<open>{symbol: "X"}\<close> signs a message whose body field is the JSON text of the object, and
  attaches no body to the request.
\<close>

theorem get_with_body_signs_unsent_body:
  "normalizedMessage 1700000000123 ''GET'' ''/v1/orders'' (JObj [(''symbol'', JStr ''X'')])
     = ''1700000000123GET/v1/orders'' @ symbol_json
   \<and> symbol_json \<noteq> []
   \<and> createAuthenticatedRequest example_sign 1700000000123 ''GET'' ''/v1/orders''
        (JObj [(''symbol'', JStr ''X'')]) ''acct1'' ''ed25519:PUB'' example_key
      = Inr config_get_with_body
   \<and> cfg_body config_get_with_body = None"
  by (simp add: call_get_with_body)
    (simp add: request_eval_defs eval_defs symbol_json_def config_get_with_body_def)

section \<open>The content type (C3)\<close>

text \<open>
  Claim C3: for every method string, \<^verbatim>\<open>getContentType\<close> returns the form-urlencoded value
  exactly when the upper-cased method is \<^verbatim>\<open>GET\<close> or \<^verbatim>\<open>DELETE\<close>, and the JSON value for
  every other method; this value is the \<^verbatim>\<open>Content-Type\<close> header of every request
  configuration that \<^verbatim>\<open>createAuthenticatedRequest\<close> returns, whatever the body.
\<close>

theorem getContentType_by_method:
  "(getContentType method = ''application/x-www-form-urlencoded'')
     = (toUpperCase method = ''GET'' \<or> toUpperCase method = ''DELETE'')
   \<and> (getContentType method = ''application/json'')
     = (toUpperCase method \<noteq> ''GET'' \<and> toUpperCase method \<noteq> ''DELETE'')
   \<and> (createAuthenticatedRequest sign timestamp method path body accountId orderlyKey orderlyPrivateKey = Inr cfg
        \<longrightarrow> map_of (cfg_headers cfg) ''Content-Type'' = Some (getContentType method))"
proof (intro conjI impI)
  show "(getContentType method = ''application/x-www-form-urlencoded'')
     = (toUpperCase method = ''GET'' \<or> toUpperCase method = ''DELETE'')"
    by (simp add: getContentType_def Let_def)
  show "(getContentType method = ''application/json'')
     = (toUpperCase method \<noteq> ''GET'' \<and> toUpperCase method \<noteq> ''DELETE'')"
    by (simp add: getContentType_def Let_def)
next
  assume "createAuthenticatedRequest sign timestamp method path body accountId orderlyKey orderlyPrivateKey = Inr cfg"
  then show "map_of (cfg_headers cfg) ''Content-Type'' = Some (getContentType method)"
    by (rule createAuthenticatedRequest_Inr) simp
qed

text \<open>The method \<^verbatim>\<open>delete\<close>, in lower case and with a body supplied.\<close>

theorem getContentType_by_method_witness:
  "createAuthenticatedRequest example_sign 1700000000123 ''delete'' ''/v1/order?order_id=1''
     (JObj [(''a'', JNum 1)]) ''acct1'' ''ed25519:PUB'' example_key = Inr config_delete_with_body
   \<and> toUpperCase ''delete'' = ''DELETE''
   \<and> getContentType ''delete'' = ''application/x-www-form-urlencoded''
   \<and> map_of (cfg_headers config_delete_with_body) ''Content-Type''
       = Some ''application/x-www-form-urlencoded''"
  using getContentType_by_method [of "''delete''" example_sign 1700000000123 "''/v1/order?order_id=1''"
      "JObj [(''a'', JNum 1)]" "''acct1''" "''ed25519:PUB''" example_key config_delete_with_body]
    call_delete_with_body
  by (simp add: eval_defs)

section \<open>The attached body (C4)\<close>

text \<open>
  Claim C4: the request configuration that \<^verbatim>\<open>createAuthenticatedRequest\<close> returns has a
  body field only when the upper-cased method is \<^verbatim>\<open>POST\<close> or \<^verbatim>\<open>PUT\<close> and the serialized
  body string is not empty, and the field is then that string; for every other method,
  \<^verbatim>\<open>GET\<close> and \<^verbatim>\<open>DELETE\<close> among them, no body field is attached, whatever body was supplied.
\<close>

theorem request_body_attached:
  assumes "createAuthenticatedRequest sign timestamp method path body accountId orderlyKey orderlyPrivateKey = Inr cfg"
  shows "\<exists>s. bodyString body = Some s
           \<and> cfg_body cfg =
               (if s \<noteq> [] \<and> (toUpperCase method = ''POST'' \<or> toUpperCase method = ''PUT'')
                then Some s else None)"
  using assms by (rule createAuthenticatedRequest_Inr) simp

theorem request_body_attached_witness:
  "createAuthenticatedRequest example_sign 1700000000123 ''post'' ''/v1/order''
     (JObj [(''symbol'', JStr ''X'')]) ''acct1'' ''ed25519:PUB'' example_key = Inr config_post
   \<and> (\<exists>s. bodyString (JObj [(''symbol'', JStr ''X'')]) = Some s
         \<and> cfg_body config_post =
             (if s \<noteq> [] \<and> (toUpperCase ''post'' = ''POST'' \<or> toUpperCase ''post'' = ''PUT'')
              then Some s else None))"
  using call_post request_body_attached [OF call_post] by (rule conjI)

section \<open>The header set (C5)\<close>

text \<open>
  Claim C5 counts exactly three custom headers beside \<^verbatim>\<open>Content-Type\<close>. The header set
  of a returned request configuration has four: the timestamp, the account id, the
  public key and the signature.
\<close>

theorem three_custom_headers_counterexample:
  "custom_header_names
     (projr (createAuthenticatedRequest example_sign 1700000000123 ''GET'' ''/v1/orders?symbol=X'' JNull
        ''acct1'' ''ed25519:PUB'' example_key)) =
     [''orderly-timestamp'', ''orderly-account-id'', ''orderly-key'', ''orderly-signature'']
   \<and> length (custom_header_names
        (projr (createAuthenticatedRequest example_sign 1700000000123 ''GET'' ''/v1/orders?symbol=X'' JNull
           ''acct1'' ''ed25519:PUB'' example_key))) \<noteq> 3"
  by (simp add: call_get custom_header_names_def config_get_def)

text \<open>
  Claim C5, amended: the header set of every returned request configuration consists of
  the standard \<^verbatim>\<open>Content-Type\<close> header plus exactly four custom headers with the fixed
  names \<^verbatim>\<open>orderly-timestamp\<close>, \<^verbatim>\<open>orderly-account-id\<close>, \<^verbatim>\<open>orderly-key\<close> and
  \<^verbatim>\<open>orderly-signature\<close>, in this order, and the account id and the public key are the
  values of their headers verbatim, as they were supplied.
\<close>

theorem header_set:
  assumes "createAuthenticatedRequest sign timestamp method path body accountId orderlyKey orderlyPrivateKey = Inr cfg"
  shows "map fst (cfg_headers cfg) =
           [''Content-Type'', ''orderly-timestamp'', ''orderly-account-id'', ''orderly-key'',
            ''orderly-signature'']
         \<and> custom_header_names cfg =
           [''orderly-timestamp'', ''orderly-account-id'', ''orderly-key'', ''orderly-signature'']
         \<and> map_of (cfg_headers cfg) ''orderly-account-id'' = Some accountId
         \<and> map_of (cfg_headers cfg) ''orderly-key'' = Some orderlyKey"
  using assms by (rule createAuthenticatedRequest_Inr) (simp add: custom_header_names_def)

theorem header_set_witness:
  "createAuthenticatedRequest example_sign 1700000000123 ''GET'' ''/v1/orders?symbol=X'' JNull
     ''acct1'' ''ed25519:PUB'' example_key = Inr config_get
   \<and> (map fst (cfg_headers config_get) =
           [''Content-Type'', ''orderly-timestamp'', ''orderly-account-id'', ''orderly-key'',
            ''orderly-signature'']
         \<and> custom_header_names config_get =
           [''orderly-timestamp'', ''orderly-account-id'', ''orderly-key'', ''orderly-signature'']
         \<and> map_of (cfg_headers config_get) ''orderly-account-id'' = Some ''acct1''
         \<and> map_of (cfg_headers config_get) ''orderly-key'' = Some ''ed25519:PUB'')"
  using call_get header_set [OF call_get] by (rule conjI)

section \<open>The encoding of the signature (C6)\<close>

text \<open>
  Claim C6: for every message and private key for which the signing primitive returns a
  signature, base64url-decoding the string that \<^verbatim>\<open>createOrderlySignature\<close> returns yields
  exactly the raw signature bytes of the primitive for that message and key, and the
  string contains no padding character \<^verbatim>\<open>=\<close>; for the 64 bytes of an ed25519 signature
  the string has 86 characters.
\<close>

theorem signature_base64url_roundtrip:
  assumes "sign (TextEncoder_encode message) privateKey = Inr signature"
  shows "\<exists>s. createOrderlySignature sign message privateKey = Inr s
           \<and> base64url_decode s = Some signature
           \<and> CHR ''='' \<notin> set s
           \<and> (length signature = 64 \<longrightarrow> length s = 86)"
  using assms
  by (simp add: createOrderlySignature_def base64url_decode_base64url base64url_no_padding
      length_base64url)

theorem signature_base64url_roundtrip_witness:
  "example_sign (TextEncoder_encode ''1700000000123GET/v1/orders?symbol=X'') example_key
     = Inr example_signature
   \<and> length example_signature = 64
   \<and> (\<exists>s. createOrderlySignature example_sign ''1700000000123GET/v1/orders?symbol=X'' example_key = Inr s
         \<and> base64url_decode s = Some example_signature
         \<and> CHR ''='' \<notin> set s
         \<and> length s = 86)"
proof -
  have len: "length example_signature = 64"
    by (simp add: example_signature_def)
  from signature_base64url_roundtrip [of example_sign "''1700000000123GET/v1/orders?symbol=X''"
      example_key example_signature, OF example_sign_get] len
  have "\<exists>s. createOrderlySignature example_sign ''1700000000123GET/v1/orders?symbol=X'' example_key = Inr s
         \<and> base64url_decode s = Some example_signature
         \<and> CHR ''='' \<notin> set s
         \<and> length s = 86"
    by simp
  with example_sign_get len show ?thesis by simp
qed

section \<open>Failure of the signing primitive (C7)\<close>

text \<open>
  Claim C7: if the signing primitive rejects the private key, then
  \<^verbatim>\<open>createOrderlySignature\<close> and \<^verbatim>\<open>createAuthenticatedRequest\<close> fail with that same error:
  no request configuration and no header set is returned, and the error is neither
  replaced nor swallowed.
\<close>

theorem signing_error_propagates:
  "(sign (TextEncoder_encode message) privateKey = Inl err
      \<longrightarrow> createOrderlySignature sign message privateKey = Inl err)
   \<and> (sign (TextEncoder_encode (normalizedMessage timestamp method path body)) orderlyPrivateKey = Inl err
      \<longrightarrow> createAuthenticatedRequest sign timestamp method path body accountId orderlyKey orderlyPrivateKey
            = Inl err)"
  by (simp add: createAuthenticatedRequest_def createOrderlySignature_def)

text \<open>A private key of three bytes.\<close>

theorem signing_error_propagates_witness:
  "example_sign (TextEncoder_encode ''1700000000123GET/v1/orders?symbol=X'') short_key
     = Inl ''private key of invalid length''
   \<and> createOrderlySignature example_sign ''1700000000123GET/v1/orders?symbol=X'' short_key
     = Inl ''private key of invalid length''
   \<and> example_sign
        (TextEncoder_encode (normalizedMessage 1700000000123 ''GET'' ''/v1/orders?symbol=X'' JNull))
        short_key
     = Inl ''private key of invalid length''
   \<and> createAuthenticatedRequest example_sign 1700000000123 ''GET'' ''/v1/orders?symbol=X'' JNull
        ''acct1'' ''ed25519:PUB'' short_key
     = Inl ''private key of invalid length''"
  using signing_error_propagates [of example_sign "''1700000000123GET/v1/orders?symbol=X''" short_key
      "''private key of invalid length''" 1700000000123 "''GET''" "''/v1/orders?symbol=X''" JNull
      short_key "''acct1''" "''ed25519:PUB''"]
  by (simp add: example_sign_short_key)

section \<open>Two calls at different timestamps (C9)\<close>



section \<open>One timestamp (C10)\<close>

text \<open>
  Claim C10: in every successful call of \<^verbatim>\<open>createAuthenticatedRequest\<close> the value of the
  timestamp header is the decimal rendering of the captured millisecond timestamp, and
  the same rendering of the same timestamp is the leading field of the canonical message
  whose signature, base64url-encoded, is the value of the signature header.
\<close>

theorem timestamp_header_is_signed_timestamp:
  assumes "createAuthenticatedRequest sign timestamp method path body accountId orderlyKey orderlyPrivateKey = Inr cfg"
  shows "map_of (cfg_headers cfg) ''orderly-timestamp'' = Some (Number_toString timestamp)
         \<and> (\<exists>s signature.
               bodyString body = Some s
               \<and> sign (TextEncoder_encode (Number_toString timestamp @ toUpperCase method @ path @ s))
                    orderlyPrivateKey = Inr signature
               \<and> map_of (cfg_headers cfg) ''orderly-signature'' = Some (base64url signature))"
  using assms
proof (rule createAuthenticatedRequest_Inr)
  fix signature s
  assume sig: "sign (TextEncoder_encode (normalizedMessage timestamp method path body)) orderlyPrivateKey = Inr signature"
    and s: "bodyString body = Some s"
    and cfg: "cfg = \<lparr>cfg_method = toUpperCase method,
               cfg_headers =
                 [(''Content-Type'', getContentType method),
                  (''orderly-timestamp'', Number_toString timestamp),
                  (''orderly-account-id'', accountId),
                  (''orderly-key'', orderlyKey),
                  (''orderly-signature'', base64url signature)],
               cfg_body =
                 (if s \<noteq> [] \<and> (toUpperCase method = ''POST'' \<or> toUpperCase method = ''PUT'')
                  then Some s else None)\<rparr>"
  from s have "normalizedMessage timestamp method path body =
      Number_toString timestamp @ toUpperCase method @ path @ s"
    by (rule normalizedMessage_fields)
  with sig s cfg show ?thesis by simp
qed

theorem timestamp_header_is_signed_timestamp_witness:
  "createAuthenticatedRequest example_sign 1700000000123 ''GET'' ''/v1/orders?symbol=X'' JNull
     ''acct1'' ''ed25519:PUB'' example_key = Inr config_get
   \<and> (map_of (cfg_headers config_get) ''orderly-timestamp'' = Some (Number_toString 1700000000123)
         \<and> (\<exists>s signature.
               bodyString JNull = Some s
               \<and> example_sign
                    (TextEncoder_encode (Number_toString 1700000000123 @ toUpperCase ''GET'' @ ''/v1/orders?symbol=X'' @ s))
                    example_key = Inr signature
               \<and> map_of (cfg_headers config_get) ''orderly-signature'' = Some (base64url signature)))"
  using call_get timestamp_header_is_signed_timestamp [OF call_get] by (rule conjI)

end
